theory Spec2Isabelle
  imports Main "HOL-Library.Sublist" "HOL-Library.AList"
begin

section \<open>Go strings and the string helpers of the standard library\<close>

text \<open>
  A Go string is a sequence of bytes, here a \<^typ>\<open>string\<close> (a list of 8-bit
  \<^typ>\<open>char\<close>). \<^verbatim>\<open>fmt.Sprint\<close> and \<^verbatim>\<open>fmt.Sprintf\<close> with \<^verbatim>\<open>%s\<close> or \<^verbatim>\<open>%v\<close> applied
  to string operands only concatenate them, so they are written with \<open>@\<close>.
\<close>

text \<open>
  \<^verbatim>\<open>strings.TrimPrefix(s, prefix)\<close>: \<^verbatim>\<open>s\<close> without the leading \<^verbatim>\<open>prefix\<close> when it
  starts with it, \<^verbatim>\<open>s\<close> itself otherwise.
\<close>

definition TrimPrefix :: "string \<Rightarrow> string \<Rightarrow> string" where
  "TrimPrefix s p = (if prefix p s then drop (length p) s else s)"

text \<open>
  \<^verbatim>\<open>strings.TrimSpace\<close> removes the leading and the trailing runes that
  \<^verbatim>\<open>unicode.IsSpace\<close> accepts: the code points with the Unicode property White_Space.
  A rune decoded from the bytes of a string is one of these exactly when the bytes
  at that place are the UTF-8 encoding of the code point (overlong and truncated
  encodings decode to U+FFFD, which is no space), so the table lists the
  encodings.
\<close>

definition spaceRunes :: "string list" where
  "spaceRunes =
    [ [CHR 0x09], [CHR 0x0A], [CHR 0x0B], [CHR 0x0C], [CHR 0x0D], [CHR 0x20],
      [CHR 0xC2, CHR 0x85], [CHR 0xC2, CHR 0xA0],
      [CHR 0xE1, CHR 0x9A, CHR 0x80],
      [CHR 0xE2, CHR 0x80, CHR 0x80], [CHR 0xE2, CHR 0x80, CHR 0x81],
      [CHR 0xE2, CHR 0x80, CHR 0x82], [CHR 0xE2, CHR 0x80, CHR 0x83],
      [CHR 0xE2, CHR 0x80, CHR 0x84], [CHR 0xE2, CHR 0x80, CHR 0x85],
      [CHR 0xE2, CHR 0x80, CHR 0x86], [CHR 0xE2, CHR 0x80, CHR 0x87],
      [CHR 0xE2, CHR 0x80, CHR 0x88], [CHR 0xE2, CHR 0x80, CHR 0x89],
      [CHR 0xE2, CHR 0x80, CHR 0x8A],
      [CHR 0xE2, CHR 0x80, CHR 0xA8], [CHR 0xE2, CHR 0x80, CHR 0xA9],
      [CHR 0xE2, CHR 0x80, CHR 0xAF],
      [CHR 0xE2, CHR 0x81, CHR 0x9F],
      [CHR 0xE3, CHR 0x80, CHR 0x80] ]"

text \<open>
  \<open>stripLeading ws s\<close> removes from the front of \<open>s\<close>, one after the other, every
  leading occurrence of a sequence of \<open>ws\<close>: the loop of \<^verbatim>\<open>strings.TrimLeftFunc\<close>.
\<close>

function stripLeading :: "string list \<Rightarrow> string \<Rightarrow> string" where
  "stripLeading ws s =
     (case find (\<lambda>w. w \<noteq> [] \<and> prefix w s) ws of
        None \<Rightarrow> s
      | Some w \<Rightarrow> stripLeading ws (drop (length w) s))"
  by pat_completeness auto
termination
proof (relation "measure (\<lambda>(ws, s). length s)")
  show "wf (measure (\<lambda>(ws, s). length s))" by simp
next
  fix ws :: "string list" and s w :: string
  assume "find (\<lambda>w. w \<noteq> [] \<and> prefix w s) ws = Some w"
  then have "w \<noteq> []" and "prefix w s"
    by (auto simp: find_Some_iff)
  then have "s \<noteq> []" by auto
  with \<open>w \<noteq> []\<close> show "((ws, drop (length w) s), (ws, s)) \<in> measure (\<lambda>(ws, s). length s)"
    by simp
qed

declare stripLeading.simps [simp del]

definition TrimLeftSpace :: "string \<Rightarrow> string" where
  "TrimLeftSpace s = stripLeading spaceRunes s"

text \<open>
  Trimming on the right reads the runes from the end of the string
  (\<^verbatim>\<open>utf8.DecodeLastRuneInString\<close>): the same loop on the reversed bytes.
\<close>

definition TrimRightSpace :: "string \<Rightarrow> string" where
  "TrimRightSpace s = rev (stripLeading (map rev spaceRunes) (rev s))"

definition TrimSpace :: "string \<Rightarrow> string" where
  "TrimSpace s = TrimRightSpace (TrimLeftSpace s)"


section \<open>The data model\<close>

text \<open>
  The structs \<^verbatim>\<open>Options\<close> and \<^verbatim>\<open>Filter\<close> of \<^verbatim>\<open>pkg/model/generate.go\<close>. A
  \<^verbatim>\<open>*Filter\<close> can be \<^verbatim>\<open>nil\<close> (\<^verbatim>\<open>NewFilter\<close> returns it), so it is an option.
\<close>

record Filter =
  TablePrefix :: string
  TableNamePattern :: string

record Options =
  DbType :: string
  Dsn :: string
  GenGormTag :: bool
  GormV1 :: bool
  GenJsonTag :: bool
  HtmlFile :: string
  ModelDir :: string
  ModelPackageName :: string
  ModelSingleFile :: bool
  Filters :: "Filter option list"
  Exclude :: "string list"
  Verbose :: bool

definition DbTypeMySQL :: string where
  "DbTypeMySQL = ''mysql''"

definition DbTypePostgreSQL :: string where
  "DbTypePostgreSQL = ''postgresql''"


section \<open>NewFilter\<close>

definition NewFilter :: "string \<Rightarrow> string \<Rightarrow> Filter option" where
  "NewFilter prefix0 pattern0 =
     (let prefix1 = TrimSpace prefix0;
          pattern1 = TrimSpace pattern0
      in if pattern1 = '''' then None
         else Some \<lparr> TablePrefix = prefix1, TableNamePattern = pattern1 \<rparr>)"


section \<open>Generated code: the statements of the jennifer library\<close>

text \<open>
  The code is emitted through \<^verbatim>\<open>github.com/dave/jennifer/jen\<close>. A
  \<^verbatim>\<open>*jen.Statement\<close> is a sequence of items, and every builder method appends one
  item to its receiver and returns the receiver. The datatype has one constructor
  for each builder method that \<^verbatim>\<open>generate.go\<close> calls, named after the method
  (\<^verbatim>\<open>Commentf\<close> formats its arguments and appends the same item as \<^verbatim>\<open>Comment\<close>).
  The groups \<^verbatim>\<open>Struct\<close>, \<^verbatim>\<open>Params\<close>, \<^verbatim>\<open>Return\<close> and \<^verbatim>\<open>Block\<close> hold the statements
  passed to them. A \<^verbatim>\<open>map[string]string\<close> handed to \<^verbatim>\<open>Tag\<close> is an association
  list with distinct keys.
\<close>

datatype Code =
    jen_Comment string
  | jen_Line
  | jen_Type
  | jen_Id string
  | jen_Struct "Code list list"
  | jen_Op string
  | jen_Int
  | jen_Uint
  | jen_Int8
  | jen_Uint8
  | jen_Int16
  | jen_Uint16
  | jen_Int32
  | jen_Uint32
  | jen_Int64
  | jen_Uint64
  | jen_String
  | jen_Qual string string
  | jen_Float32
  | jen_Float64
  | jen_Byte
  | jen_Tag "(string \<times> string) list"
  | jen_Func
  | jen_Params "Code list list"
  | jen_Return "Code list list"
  | jen_Block "Code list list"
  | jen_Lit string

type_synonym Statement = "Code list"

text \<open>A panic carries its message; an \<^verbatim>\<open>error\<close> is a returned value.\<close>

datatype panic = Panic string

datatype error = ErrTypeNotSupported | Error string

text \<open>
  Modelled from the spec: the declarations of the structs \<^verbatim>\<open>Field\<close> and \<^verbatim>\<open>Table\<close>
  are not in \<^verbatim>\<open>generate.go\<close>. The records have the fields that the data model of the
  specification lists and that \<^verbatim>\<open>generate.go\<close> reads and writes, under the names used
  there. The column name \<^verbatim>\<open>Field\<close> and the column comment \<^verbatim>\<open>Comment\<close> of a \<^verbatim>\<open>Field\<close>
  are \<open>Field_col\<close> and \<open>Comment_col\<close>. The pointers \<^verbatim>\<open>*Options\<close>, \<^verbatim>\<open>*Table\<close> and
  \<^verbatim>\<open>*Field\<close> that the emitter receives are taken to point to a value; a table that
  has not been rendered has the empty statement.
\<close>

record Field =
  Field_col :: string
  Type :: string
  GoType :: string
  Nullable :: bool
  Default :: string
  Key :: string
  Comment_col :: string

record Table =
  Name :: string
  Prefix :: string
  Comment :: string
  Fields :: "Field list"
  GoStruct :: string
  goStatement :: Statement

text \<open>
  The functions that \<^verbatim>\<open>generate.go\<close> calls and does not define are parameters of
  the model: the naming helpers \<^verbatim>\<open>TitleCase\<close>, \<^verbatim>\<open>CamelCase\<close> and \<^verbatim>\<open>OneLine\<close> of the
  package, and the renderer \<^verbatim>\<open>(*jen.Statement).GoString\<close>, which formats the
  statement as Go source and panics when that fails.
\<close>

record Env =
  TitleCase :: "string \<Rightarrow> string"
  CamelCase :: "string \<Rightarrow> string"
  OneLine :: "string \<Rightarrow> string"
  GoString :: "Statement \<Rightarrow> panic + string"


section \<open>DbStruct\<close>

text \<open>
  The interface \<^verbatim>\<open>strutter\<close>: its method \<^verbatim>\<open>dbStruct\<close> returns a slice of tables and
  an error (\<open>None\<close> is \<^verbatim>\<open>nil\<close>; the \<^verbatim>\<open>nil\<close> slice is the empty list). The two
  implementations \<^verbatim>\<open>mysql\<close> and \<^verbatim>\<open>postgresql\<close> are parameters.
\<close>

type_synonym strutter = "Options \<Rightarrow> Table list \<times> error option"

definition DbStruct :: "strutter \<Rightarrow> strutter \<Rightarrow> Options \<Rightarrow> Table list \<times> error option" where
  "DbStruct mysql postgresql options =
     (if DbType options = DbTypeMySQL then mysql options
      else if DbType options = DbTypePostgreSQL then postgresql options
      else ([], Some ErrTypeNotSupported))"


section \<open>The emitter\<close>

definition goType :: "Options \<Rightarrow> Field \<Rightarrow> Statement \<Rightarrow> panic + Statement" where
  "goType options field c =
     (if GoType field = ''int'' then Inr (c @ [jen_Int])
      else if GoType field = ''uint'' then Inr (c @ [jen_Uint])
      else if GoType field = ''int8'' then Inr (c @ [jen_Int8])
      else if GoType field = ''uint8'' then Inr (c @ [jen_Uint8])
      else if GoType field = ''int16'' then Inr (c @ [jen_Int16])
      else if GoType field = ''uint16'' then Inr (c @ [jen_Uint16])
      else if GoType field = ''int32'' then Inr (c @ [jen_Int32])
      else if GoType field = ''uint32'' then Inr (c @ [jen_Uint32])
      else if GoType field = ''int64'' then Inr (c @ [jen_Int64])
      else if GoType field = ''uint64'' then Inr (c @ [jen_Uint64])
      else if GoType field = ''string'' then Inr (c @ [jen_String])
      else if GoType field = ''time.Time'' then Inr (c @ [jen_Qual ''time'' ''Time''])
      else if GoType field = ''float32'' then Inr (c @ [jen_Float32])
      else if GoType field = ''float64'' then Inr (c @ [jen_Float64])
      else if GoType field = ''[]byte'' then Inr (c @ [jen_Op ''[]'', jen_Byte])
      else Inl (Panic (''unknow gotype: '' @ GoType field)))"

text \<open>The body of the loop of \<^verbatim>\<open>goFields\<close>: the statement of one field.\<close>

definition goFields_body :: "Env \<Rightarrow> Options \<Rightarrow> Field \<Rightarrow> panic + Statement" where
  "goFields_body env options f =
     (let c = [jen_Id (TitleCase env (Field_col f))];
          c = (if Nullable f then c @ [jen_Op ''*''] else c)
      in case goType options f c of
           Inl p \<Rightarrow> Inl p
         | Inr c \<Rightarrow>
            (let tag = [];
                 tag = (if GenGormTag options then
                          (let t = ''column:'' @ Field_col f @ '';type:'' @ Type f;
                               t = (if Default f \<noteq> '''' then t @ ('';default:'' @ Default f) else t);
                               t = (if \<not> Nullable f then t @ '';not null'' else t);
                               t = (if Key f = ''PRI'' then t @ '';primary_key'' else t)
                           in AList.update ''gorm'' t tag)
                        else tag);
                 tag = (if GenJsonTag options
                        then AList.update ''json'' (CamelCase env (Field_col f)) tag else tag);
                 c = (if length tag > 0 then c @ [jen_Tag tag] else c);
                 c = (if Comment_col f \<noteq> ''''
                      then c @ [jen_Comment (OneLine env (Comment_col f))] else c)
             in Inr c))"

text \<open>The loop of \<^verbatim>\<open>goFields\<close> over the fields, appending to \<^verbatim>\<open>cs\<close>; a panic ends it.\<close>

fun goFields_loop ::
  "Env \<Rightarrow> Options \<Rightarrow> Field list \<Rightarrow> Statement list \<Rightarrow> panic + Statement list" where
  "goFields_loop env options [] cs = Inr cs"
| "goFields_loop env options (f # fs) cs =
     (case goFields_body env options f of
        Inl p \<Rightarrow> Inl p
      | Inr c \<Rightarrow> goFields_loop env options fs (cs @ [c]))"

definition goFields :: "Env \<Rightarrow> Options \<Rightarrow> Field list \<Rightarrow> panic + Statement list" where
  "goFields env options fs = goFields_loop env options fs []"

text \<open>
  \<^verbatim>\<open>goStruct\<close> assigns to \<^verbatim>\<open>table.GoStruct\<close> and \<^verbatim>\<open>table.goStatement\<close>; the model
  returns the table after the assignments, or the panic that ended the call before
  them.
\<close>

definition goStruct :: "Env \<Rightarrow> Options \<Rightarrow> Table \<Rightarrow> panic + Table" where
  "goStruct env options table =
     (let name = TitleCase env (TrimPrefix (Name table) (Prefix table));
          c = [jen_Comment (name @ '' table: '' @ Name table), jen_Line];
          c = (if Comment table \<noteq> ''''
               then c @ [jen_Comment (OneLine env (Comment table)), jen_Line] else c)
      in case goFields env options (Fields table) of
           Inl p \<Rightarrow> Inl p
         | Inr fs \<Rightarrow>
            (let c = c @ [jen_Type, jen_Id name, jen_Struct fs];
                 c = (if Prefix table \<noteq> ''''
                      then c @ [jen_Line, jen_Line,
                                jen_Comment (''TableName set table of '' @ Name table @
                                  '', ref document see https://gorm.io/docs/conventions.html''),
                                jen_Line,
                                jen_Func, jen_Params [[jen_Id name]], jen_Id ''TableName'',
                                jen_Return [[jen_String]],
                                jen_Block [[jen_Return [[jen_Lit (Name table)]]]]]
                      else c)
             in case GoString env c of
                  Inl p \<Rightarrow> Inl p
                | Inr s \<Rightarrow> Inr (table\<lparr> GoStruct := s, goStatement := c \<rparr>)))"


section \<open>Reading a statement\<close>

text \<open>The entries of the tags of a field statement, the fields of the struct groups.\<close>

fun tagItems :: "Code \<Rightarrow> (string \<times> string) list" where
  "tagItems (jen_Tag m) = m"
| "tagItems _ = []"

definition fieldTags :: "Statement \<Rightarrow> (string \<times> string) list" where
  "fieldTags c = concat (map tagItems c)"

fun structItems :: "Code \<Rightarrow> Statement list" where
  "structItems (jen_Struct fs) = fs"
| "structItems _ = []"

definition structFields :: "Statement \<Rightarrow> Statement list" where
  "structFields c = concat (map structItems c)"

text \<open>
  The type of a field statement: what stands between the identifier of the field
  and its tag or comment.
\<close>

fun tagOrComment :: "Code \<Rightarrow> bool" where
  "tagOrComment (jen_Tag m) = True"
| "tagOrComment (jen_Comment s) = True"
| "tagOrComment _ = False"

definition fieldType :: "Statement \<Rightarrow> Statement" where
  "fieldType c = takeWhile (\<lambda>x. \<not> tagOrComment x) (tl c)"

text \<open>\<open>hasFunc x\<close>: the keyword \<^verbatim>\<open>func\<close> occurs in the item \<open>x\<close>, at any depth.\<close>

primrec hasFunc :: "Code \<Rightarrow> bool" where
  "hasFunc (jen_Comment s) = False"
| "hasFunc jen_Line = False"
| "hasFunc jen_Type = False"
| "hasFunc (jen_Id s) = False"
| "hasFunc (jen_Struct ss) = list_ex (list_ex (\<lambda>b. b)) (map (map hasFunc) ss)"
| "hasFunc (jen_Op s) = False"
| "hasFunc jen_Int = False"
| "hasFunc jen_Uint = False"
| "hasFunc jen_Int8 = False"
| "hasFunc jen_Uint8 = False"
| "hasFunc jen_Int16 = False"
| "hasFunc jen_Uint16 = False"
| "hasFunc jen_Int32 = False"
| "hasFunc jen_Uint32 = False"
| "hasFunc jen_Int64 = False"
| "hasFunc jen_Uint64 = False"
| "hasFunc jen_String = False"
| "hasFunc (jen_Qual p n) = False"
| "hasFunc jen_Float32 = False"
| "hasFunc jen_Float64 = False"
| "hasFunc jen_Byte = False"
| "hasFunc (jen_Tag m) = False"
| "hasFunc jen_Func = True"
| "hasFunc (jen_Params ss) = list_ex (list_ex (\<lambda>b. b)) (map (map hasFunc) ss)"
| "hasFunc (jen_Return ss) = list_ex (list_ex (\<lambda>b. b)) (map (map hasFunc) ss)"
| "hasFunc (jen_Block ss) = list_ex (list_ex (\<lambda>b. b)) (map (map hasFunc) ss)"
| "hasFunc (jen_Lit s) = False"

text \<open>
  The Go spelling of the items that make up a type, as the library renders them:
  a predeclared type by its name, \<^verbatim>\<open>Qual(path, name)\<close> as \<^verbatim>\<open>path.name\<close>, an
  operator as its text. No other item is part of a type. \<open>spelling\<close> is the text
  of a sequence of such items.
\<close>

fun spell :: "Code \<Rightarrow> string option" where
  "spell jen_Int = Some ''int''"
| "spell jen_Uint = Some ''uint''"
| "spell jen_Int8 = Some ''int8''"
| "spell jen_Uint8 = Some ''uint8''"
| "spell jen_Int16 = Some ''int16''"
| "spell jen_Uint16 = Some ''uint16''"
| "spell jen_Int32 = Some ''int32''"
| "spell jen_Uint32 = Some ''uint32''"
| "spell jen_Int64 = Some ''int64''"
| "spell jen_Uint64 = Some ''uint64''"
| "spell jen_String = Some ''string''"
| "spell (jen_Qual p n) = Some (p @ ''.'' @ n)"
| "spell jen_Float32 = Some ''float32''"
| "spell jen_Float64 = Some ''float64''"
| "spell jen_Byte = Some ''byte''"
| "spell (jen_Op s) = Some s"
| "spell _ = None"

fun spelling :: "Statement \<Rightarrow> string option" where
  "spelling [] = Some ''''"
| "spelling (x # xs) =
     (case spell x of
        None \<Rightarrow> None
      | Some s \<Rightarrow> (case spelling xs of None \<Rightarrow> None | Some r \<Rightarrow> Some (s @ r)))"

text \<open>
  \<open>funcNameReturn c\<close>: somewhere in the statement \<open>c\<close> a line starts with the keyword
  \<^verbatim>\<open>func\<close>, a parameter list and an identifier, and goes on with a \<^verbatim>\<open>Return\<close> group,
  which the library renders as the keyword \<^verbatim>\<open>return\<close>: the text
  \<^verbatim>\<open>func (...) Name return ...\<close>, where Go wants the signature of the method.
\<close>

fun isParams :: "Code \<Rightarrow> bool" where
  "isParams (jen_Params ps) = True"
| "isParams _ = False"

fun isId :: "Code \<Rightarrow> bool" where
  "isId (jen_Id n) = True"
| "isId _ = False"

fun isReturn :: "Code \<Rightarrow> bool" where
  "isReturn (jen_Return rs) = True"
| "isReturn _ = False"

fun funcNameReturnHere :: "Statement \<Rightarrow> bool" where
  "funcNameReturnHere (l # f # p # i # r # rest) =
     (l = jen_Line \<and> f = jen_Func \<and> isParams p \<and> isId i \<and> isReturn r)"
| "funcNameReturnHere _ = False"

fun funcNameReturn :: "Statement \<Rightarrow> bool" where
  "funcNameReturn [] = False"
| "funcNameReturn (x # xs) = (funcNameReturnHere (x # xs) \<or> funcNameReturn xs)"

text \<open>
  \<^verbatim>\<open>GoString\<close> formats what it has rendered with \<^verbatim>\<open>go/format\<close> and panics when the
  text is not well-formed Go. \<open>rejectsFuncNameReturn render\<close> says of a renderer
  that it panics on every statement with such a line.
\<close>

definition rejectsFuncNameReturn :: "(Statement \<Rightarrow> panic + string) \<Rightarrow> bool" where
  "rejectsFuncNameReturn render \<longleftrightarrow> (\<forall>c. funcNameReturn c \<longrightarrow> (\<exists>p. render c = Inl p))"

text \<open>
  \<open>prefixFree ws\<close>: no sequence of \<open>ws\<close> is empty or a proper prefix of another one.
\<close>

definition prefixFree :: "string list \<Rightarrow> bool" where
  "prefixFree ws = list_all (\<lambda>w. w \<noteq> [] \<and> list_all (\<lambda>x. prefix w x \<longrightarrow> w = x) ws) ws"

text \<open>
  An environment and inputs to run the model on. The renderer of the environment
  panics on a line \<^verbatim>\<open>func (...) Name return ...\<close> and returns a fixed text otherwise.
\<close>

definition env0 :: Env where
  "env0 = \<lparr> TitleCase = (\<lambda>s. ''T_'' @ s), CamelCase = (\<lambda>s. ''c_'' @ s),
            OneLine = filter (\<lambda>ch. ch \<noteq> CHR 0x0A),
            GoString = (\<lambda>c. if funcNameReturn c
                             then Inl (Panic ''Error while formatting source'')
                             else Inr ''rendered'') \<rparr>"

definition options0 :: Options where
  "options0 = \<lparr> DbType = ''mysql'', Dsn = '''', GenGormTag = True, GormV1 = False,
                GenJsonTag = True, HtmlFile = '''', ModelDir = '''', ModelPackageName = '''',
                ModelSingleFile = False, Filters = [], Exclude = [], Verbose = False \<rparr>"

definition field_id :: Field where
  "field_id = \<lparr> Field_col = ''id'', Type = ''int'', GoType = ''int'', Nullable = False,
                Default = ''0'', Key = ''PRI'', Comment_col = '''' \<rparr>"

definition field_note :: Field where
  "field_note = \<lparr> Field_col = ''note'', Type = ''bigint(20)'', GoType = ''int64'', Nullable = True,
                  Default = '''', Key = '''', Comment_col = ''a note'' \<rparr>"

definition table0 :: Table where
  "table0 = \<lparr> Name = ''t_order'', Prefix = ''t_'', Comment = ''orders'',
              Fields = [field_id, field_note], GoStruct = '''', goStatement = [] \<rparr>"

definition table1 :: Table where
  "table1 = \<lparr> Name = ''order'', Prefix = '''', Comment = ''orders'',
              Fields = [field_id, field_note], GoStruct = '''', goStatement = [] \<rparr>"

text \<open>
  The statements that \<^verbatim>\<open>goFields\<close> builds on these fields and \<^verbatim>\<open>goStruct\<close> on the
  table without prefix.
\<close>

definition statement_id :: Statement where
  "statement_id =
     [jen_Id ''T_id'', jen_Int,
      jen_Tag [(''gorm'', ''column:id;type:int;default:0;not null;primary_key''),
               (''json'', ''c_id'')]]"

definition statement_note :: Statement where
  "statement_note =
     [jen_Id ''T_note'', jen_Op ''*'', jen_Int64,
      jen_Tag [(''gorm'', ''column:note;type:bigint(20)''), (''json'', ''c_note'')],
      jen_Comment ''a note'']"

definition statement1 :: Statement where
  "statement1 =
     [jen_Comment ''T_order table: order'', jen_Line,
      jen_Comment ''orders'', jen_Line,
      jen_Type, jen_Id ''T_order'', jen_Struct [statement_id, statement_note]]"

text \<open>Two stand-ins for the dialect implementations.\<close>

definition mysql0 :: strutter where
  "mysql0 = (\<lambda>options. ([table0], None))"

definition postgresql0 :: strutter where
  "postgresql0 = (\<lambda>options. ([], Some (Error ''connection refused'')))"

text \<open>
  The enumeration of \<^verbatim>\<open>GoType\<close> in the words of the specification: signed and
  unsigned integers of width 8, 16, 32 and 64, \<^verbatim>\<open>string\<close>, \<^verbatim>\<open>float32\<close>, \<^verbatim>\<open>float64\<close>, a
  byte-sequence type and a timestamp type.
\<close>

definition spec_GoType_enumeration :: "string list" where
  "spec_GoType_enumeration =
     [''int8'', ''int16'', ''int32'', ''int64'',
      ''uint8'', ''uint16'', ''uint32'', ''uint64'',
      ''string'', ''float32'', ''float64'', ''[]byte'', ''time.Time'']"


section \<open>Facts about trimming\<close>

lemma find_prefix_Nil: "find (\<lambda>w. w \<noteq> [] \<and> prefix w []) ws = None"
  by (simp add: find_None_iff)

lemma stripLeading_Nil [simp]: "stripLeading ws [] = []"
  by (subst stripLeading.simps) (simp only: find_prefix_Nil option.case)

lemma TrimSpace_Nil [simp]: "TrimSpace [] = []"
  by (simp add: TrimSpace_def TrimLeftSpace_def TrimRightSpace_def)

text \<open>What the loop returns starts with none of the sequences, and ends the input.\<close>

lemma stripLeading_fixed:
  "find (\<lambda>w. w \<noteq> [] \<and> prefix w (stripLeading ws s)) ws = None"
proof (induction ws s rule: stripLeading.induct)
  case (1 ws s)
  show ?case
  proof (cases "find (\<lambda>w. w \<noteq> [] \<and> prefix w s) ws")
    case None
    then show ?thesis by (subst stripLeading.simps) simp
  next
    case (Some w)
    with "1" show ?thesis by (subst stripLeading.simps) simp
  qed
qed

lemma stripLeading_suffix: "suffix (stripLeading ws s) s"
proof (induction ws s rule: stripLeading.induct)
  case (1 ws s)
  show ?case
  proof (cases "find (\<lambda>w. w \<noteq> [] \<and> prefix w s) ws")
    case None
    then show ?thesis by (subst stripLeading.simps) simp
  next
    case (Some w)
    with "1" have "suffix (stripLeading ws (drop (length w) s)) (drop (length w) s)" by simp
    then have "suffix (stripLeading ws (drop (length w) s)) s"
      using suffix_drop suffix_order.trans by blast
    with Some show ?thesis by (subst stripLeading.simps) simp
  qed
qed

text \<open>
  The encodings of the white space are prefix-free, so the loop removes a
  sequence of them rune by rune, whatever follows.
\<close>

lemma prefixFree_spaceRunes: "prefixFree spaceRunes"
  unfolding prefixFree_def spaceRunes_def by simp

lemma stripLeading_step:
  assumes pf: "prefixFree ws" and x: "x \<in> set ws"
  shows "stripLeading ws (x @ r) = stripLeading ws r"
proof -
  from pf x have xne: "x \<noteq> []" by (auto simp: prefixFree_def list_all_iff)
  have "find (\<lambda>w. w \<noteq> [] \<and> prefix w (x @ r)) ws \<noteq> None"
    using x xne by (auto simp: find_None_iff)
  then obtain w where f: "find (\<lambda>w. w \<noteq> [] \<and> prefix w (x @ r)) ws = Some w" by auto
  then have w: "w \<in> set ws" "w \<noteq> []" "prefix w (x @ r)"
    by (auto simp: find_Some_iff)
  have "prefix w x \<or> prefix x w"
    using w(3) by (metis prefix_append prefixI prefix_same_cases)
  then have "w = x"
    using pf x w(1) by (auto simp: prefixFree_def list_all_iff)
  with f show ?thesis by (subst stripLeading.simps) simp
qed

lemma stripLeading_concat:
  assumes pf: "prefixFree ws" and xs: "set xs \<subseteq> set ws"
  shows "stripLeading ws (concat xs @ r) = stripLeading ws r"
  using xs by (induction xs) (simp_all add: stripLeading_step [OF pf])

lemma TrimSpace_only_spaces:
  assumes "set xs \<subseteq> set spaceRunes"
  shows "TrimSpace (concat xs) = []"
  using stripLeading_concat [OF prefixFree_spaceRunes assms, of "[]"]
  by (simp add: TrimSpace_def TrimLeftSpace_def TrimRightSpace_def)

lemma TrimSpace_no_trailing:
  assumes "w \<in> set spaceRunes"
  shows "\<not> suffix w (TrimSpace s)"
proof
  assume sf: "suffix w (TrimSpace s)"
  let ?r = "stripLeading (map rev spaceRunes) (rev (TrimLeftSpace s))"
  from assms have ne: "w \<noteq> []" by (auto simp: spaceRunes_def)
  from sf have "prefix (rev w) ?r"
    by (simp add: TrimSpace_def TrimRightSpace_def suffix_to_prefix)
  moreover have "rev w \<in> set (map rev spaceRunes)" using assms by simp
  ultimately show False
    using stripLeading_fixed [of "map rev spaceRunes" "rev (TrimLeftSpace s)"] ne
    by (auto simp: find_None_iff simp del: set_map)
qed

lemma TrimSpace_no_leading:
  assumes "w \<in> set spaceRunes"
  shows "\<not> prefix w (TrimSpace s)"
proof
  assume pf: "prefix w (TrimSpace s)"
  from assms have ne: "w \<noteq> []" by (auto simp: spaceRunes_def)
  have "suffix (stripLeading (map rev spaceRunes) (rev (TrimLeftSpace s))) (rev (TrimLeftSpace s))"
    by (rule stripLeading_suffix)
  then have "prefix (TrimSpace s) (TrimLeftSpace s)"
    by (simp add: TrimSpace_def TrimRightSpace_def suffix_to_prefix)
  with pf have "prefix w (stripLeading spaceRunes s)"
    by (auto simp: TrimLeftSpace_def)
  then show False
    using stripLeading_fixed [of spaceRunes s] ne assms
    by (auto simp: find_None_iff)
qed

text \<open>Trimming on concrete strings, computed from the definitions.\<close>

lemma TrimSpace_examples:
  "TrimSpace '' t_ '' = ''t_''"
  "TrimSpace ([CHR 0x09] @ ''t_.*'' @ [CHR 0xE3, CHR 0x80, CHR 0x80, CHR 0x0A]) = ''t_.*''"
  "TrimSpace ''t_.*'' = ''t_.*''"
  "TrimSpace ''t_'' = ''t_''"
  by (simp_all add: TrimSpace_def TrimLeftSpace_def TrimRightSpace_def spaceRunes_def
        stripLeading.simps)


section \<open>NewFilter: the claims\<close>

text \<open>
  Claim C6. \<^verbatim>\<open>NewFilter\<close> returns \<^verbatim>\<open>nil\<close> (no filter, neither a panic nor an error
  value) whenever the pattern is the empty string, whatever the prefix, and a
  filter that it does return never has the empty pattern.
\<close>

theorem NewFilter_empty_pattern:
  "NewFilter prefix0 '''' = None \<and>
   (\<forall>f. NewFilter prefix0 pattern0 = Some f \<longrightarrow> TableNamePattern f \<noteq> '''')"
  by (auto simp: NewFilter_def Let_def split: if_splits)

theorem NewFilter_empty_pattern_witness:
  "NewFilter ''t_'' '''' = None \<and>
   NewFilter ''t_'' ''t_.*'' = Some \<lparr> TablePrefix = ''t_'', TableNamePattern = ''t_.*'' \<rparr> \<and>
   TableNamePattern \<lparr> TablePrefix = ''t_'', TableNamePattern = ''t_.*'' \<rparr> \<noteq> ''''"
  using NewFilter_empty_pattern [of "''t_''" "''t_.*''"]
  by (simp add: NewFilter_def TrimSpace_examples)

text \<open>
  Claim C10. \<^verbatim>\<open>NewFilter\<close> trims both arguments before the check: it returns
  \<^verbatim>\<open>nil\<close> exactly when the trimmed pattern is empty, so for every pattern made of
  white space only; and the filter it returns holds the trimmed prefix and the
  trimmed pattern, which neither start nor end with white space.
\<close>

theorem NewFilter_trims:
  "(NewFilter prefix0 pattern0 = None \<longleftrightarrow> TrimSpace pattern0 = '''') \<and>
   (set ws \<subseteq> set spaceRunes \<longrightarrow> NewFilter prefix0 (concat ws) = None) \<and>
   (\<forall>f. NewFilter prefix0 pattern0 = Some f \<longrightarrow>
      TablePrefix f = TrimSpace prefix0 \<and> TableNamePattern f = TrimSpace pattern0 \<and>
      (\<forall>w \<in> set spaceRunes.
         \<not> prefix w (TablePrefix f) \<and> \<not> suffix w (TablePrefix f) \<and>
         \<not> prefix w (TableNamePattern f) \<and> \<not> suffix w (TableNamePattern f)))"
proof (intro conjI allI impI)
  show "NewFilter prefix0 pattern0 = None \<longleftrightarrow> TrimSpace pattern0 = ''''"
    by (simp add: NewFilter_def Let_def)
next
  assume "set ws \<subseteq> set spaceRunes"
  then show "NewFilter prefix0 (concat ws) = None"
    by (simp add: NewFilter_def Let_def TrimSpace_only_spaces)
next
  fix f
  assume "NewFilter prefix0 pattern0 = Some f"
  then have f: "f = \<lparr> TablePrefix = TrimSpace prefix0, TableNamePattern = TrimSpace pattern0 \<rparr>"
    by (auto simp: NewFilter_def Let_def split: if_splits)
  show "TablePrefix f = TrimSpace prefix0" by (simp add: f)
  show "TableNamePattern f = TrimSpace pattern0" by (simp add: f)
  show "\<forall>w \<in> set spaceRunes.
         \<not> prefix w (TablePrefix f) \<and> \<not> suffix w (TablePrefix f) \<and>
         \<not> prefix w (TableNamePattern f) \<and> \<not> suffix w (TableNamePattern f)"
    by (simp add: f TrimSpace_no_leading TrimSpace_no_trailing)
qed

theorem NewFilter_trims_witness:
  "set [[CHR 0x20], [CHR 0x09], [CHR 0xC2, CHR 0xA0]] \<subseteq> set spaceRunes \<and>
   NewFilter '' t_ '' (concat [[CHR 0x20], [CHR 0x09], [CHR 0xC2, CHR 0xA0]]) = None \<and>
   NewFilter '' t_ '' ([CHR 0x09] @ ''t_.*'' @ [CHR 0xE3, CHR 0x80, CHR 0x80, CHR 0x0A]) =
     Some \<lparr> TablePrefix = ''t_'', TableNamePattern = ''t_.*'' \<rparr> \<and>
   [CHR 0x20] \<in> set spaceRunes \<and>
   \<not> prefix [CHR 0x20] (TablePrefix \<lparr> TablePrefix = ''t_'', TableNamePattern = ''t_.*'' \<rparr>) \<and>
   \<not> suffix [CHR 0x20] (TablePrefix \<lparr> TablePrefix = ''t_'', TableNamePattern = ''t_.*'' \<rparr>)"
proof -
  have sp: "set [[CHR 0x20], [CHR 0x09], [CHR 0xC2, CHR 0xA0]] \<subseteq> set spaceRunes"
    by (simp add: spaceRunes_def)
  have ex: "NewFilter '' t_ '' ([CHR 0x09] @ ''t_.*'' @ [CHR 0xE3, CHR 0x80, CHR 0x80, CHR 0x0A]) =
     Some \<lparr> TablePrefix = ''t_'', TableNamePattern = ''t_.*'' \<rparr>"
    unfolding NewFilter_def TrimSpace_examples by simp
  have m: "[CHR 0x20] \<in> set spaceRunes"
    by (simp add: spaceRunes_def)
  note inst = NewFilter_trims [of "'' t_ ''"
      "[CHR 0x09] @ ''t_.*'' @ [CHR 0xE3, CHR 0x80, CHR 0x80, CHR 0x0A]"
      "[[CHR 0x20], [CHR 0x09], [CHR 0xC2, CHR 0xA0]]"]
  from inst sp
  have none: "NewFilter '' t_ '' (concat [[CHR 0x20], [CHR 0x09], [CHR 0xC2, CHR 0xA0]]) = None"
    by blast
  from inst ex m
  have trimmed:
    "\<not> prefix [CHR 0x20] (TablePrefix \<lparr> TablePrefix = ''t_'', TableNamePattern = ''t_.*'' \<rparr>) \<and>
     \<not> suffix [CHR 0x20] (TablePrefix \<lparr> TablePrefix = ''t_'', TableNamePattern = ''t_.*'' \<rparr>)"
    by blast
  from sp none ex m trimmed show ?thesis by blast
qed


section \<open>DbStruct: the claim\<close>

text \<open>
  Claim C5. \<^verbatim>\<open>DbStruct\<close> returns no tables and the error \<^verbatim>\<open>ErrTypeNotSupported\<close>
  whenever \<^verbatim>\<open>options.DbType\<close> is neither \<^verbatim>\<open>"mysql"\<close> nor \<^verbatim>\<open>"postgresql"\<close>; for these
  two tags it returns what the \<^verbatim>\<open>dbStruct\<close> of the matching dialect returns.
\<close>

theorem DbStruct_dispatch:
  "(DbType options \<noteq> ''mysql'' \<and> DbType options \<noteq> ''postgresql'' \<longrightarrow>
      DbStruct mysql postgresql options = ([], Some ErrTypeNotSupported)) \<and>
   (DbType options = ''mysql'' \<longrightarrow> DbStruct mysql postgresql options = mysql options) \<and>
   (DbType options = ''postgresql'' \<longrightarrow>
      DbStruct mysql postgresql options = postgresql options)"
  by (simp add: DbStruct_def DbTypeMySQL_def DbTypePostgreSQL_def)

theorem DbStruct_dispatch_witness:
  "DbType (options0\<lparr> DbType := ''sqlite'' \<rparr>) \<noteq> ''mysql'' \<and>
   DbType (options0\<lparr> DbType := ''sqlite'' \<rparr>) \<noteq> ''postgresql'' \<and>
   DbStruct mysql0 postgresql0 (options0\<lparr> DbType := ''sqlite'' \<rparr>) =
     ([], Some ErrTypeNotSupported) \<and>
   DbType options0 = ''mysql'' \<and>
   DbStruct mysql0 postgresql0 options0 = ([table0], None) \<and>
   DbType (options0\<lparr> DbType := ''postgresql'' \<rparr>) = ''postgresql'' \<and>
   DbStruct mysql0 postgresql0 (options0\<lparr> DbType := ''postgresql'' \<rparr>) =
     ([], Some (Error ''connection refused''))"
  using DbStruct_dispatch [of "options0\<lparr> DbType := ''sqlite'' \<rparr>" mysql0 postgresql0]
    DbStruct_dispatch [of options0 mysql0 postgresql0]
    DbStruct_dispatch [of "options0\<lparr> DbType := ''postgresql'' \<rparr>" mysql0 postgresql0]
  by (simp add: options0_def mysql0_def postgresql0_def)


section \<open>goType\<close>

text \<open>
  \<^verbatim>\<open>goType\<close> appends to the statement it is given, so its result on any statement
  is read off its result on the empty one.
\<close>

lemma goType_Cons:
  "goType options f (x # xs) =
     (case goType options f [] of Inl p \<Rightarrow> Inl p | Inr ty \<Rightarrow> Inr (x # xs @ ty))"
  by (simp add: goType_def)

lemma goType_append:
  "goType options f c =
     (case goType options f [] of Inl p \<Rightarrow> Inl p | Inr ty \<Rightarrow> Inr (c @ ty))"
  by (cases c) (simp_all add: goType_Cons split: sum.splits)

lemma goType_tokens:
  assumes "goType options f [] = Inr ty"
  shows "ty \<noteq> []" and "list_all (\<lambda>x. \<not> tagOrComment x) ty" and "fieldTags ty = []"
    and "\<not> list_ex hasFunc ty"
  using assms by (auto simp: goType_def fieldTags_def split: if_splits)

lemma goType_succeeds_iff:
  "(\<exists>ty. goType options f [] = Inr ty) \<longleftrightarrow>
     GoType f \<in> set spec_GoType_enumeration \<union> {''int'', ''uint''}"
  by (simp add: goType_def spec_GoType_enumeration_def)

lemma goType_panics:
  "GoType f \<notin> set spec_GoType_enumeration \<union> {''int'', ''uint''} \<Longrightarrow>
     goType options f c = Inl (Panic (''unknow gotype: '' @ GoType f))"
  by (simp add: goType_def spec_GoType_enumeration_def)

text \<open>
  Claim C2, as stated: \<^verbatim>\<open>goType\<close> succeeds exactly on the enumeration of the
  specification and panics on every other \<^verbatim>\<open>GoType\<close>. The code has two more cases:
  \<^verbatim>\<open>"int"\<close> is outside the enumeration, and \<^verbatim>\<open>goType\<close> renders it as \<^verbatim>\<open>int\<close>.
\<close>

theorem goType_int_counterexample:
  "GoType field_id = ''int'' \<and>
   GoType field_id \<notin> set spec_GoType_enumeration \<and>
   goType options0 field_id [] = Inr [jen_Int]"
  by (simp add: goType_def field_id_def spec_GoType_enumeration_def)

text \<open>
  Claim C2, amended. \<^verbatim>\<open>goType\<close> succeeds exactly when \<^verbatim>\<open>GoType\<close> is in the
  enumeration of the specification or is one of \<^verbatim>\<open>"int"\<close> and \<^verbatim>\<open>"uint"\<close>; it then
  returns the statement it was given with the tokens of the type appended, at
  least one. On every other \<^verbatim>\<open>GoType\<close> it panics with the message
  \<^verbatim>\<open>unknow gotype: <GoType>\<close> and returns no statement.
\<close>

theorem goType_enumeration:
  "(GoType f \<in> set spec_GoType_enumeration \<union> {''int'', ''uint''} \<longrightarrow>
      (\<exists>ty. ty \<noteq> [] \<and> goType options f c = Inr (c @ ty))) \<and>
   (GoType f \<notin> set spec_GoType_enumeration \<union> {''int'', ''uint''} \<longrightarrow>
      goType options f c = Inl (Panic (''unknow gotype: '' @ GoType f)))"
proof (intro conjI impI)
  assume "GoType f \<in> set spec_GoType_enumeration \<union> {''int'', ''uint''}"
  then obtain ty where ty: "goType options f [] = Inr ty"
    using goType_succeeds_iff [of options f] by blast
  then have "goType options f c = Inr (c @ ty)"
    by (subst goType_append) simp
  with goType_tokens(1) [OF ty] show "\<exists>ty. ty \<noteq> [] \<and> goType options f c = Inr (c @ ty)"
    by blast
next
  assume "GoType f \<notin> set spec_GoType_enumeration \<union> {''int'', ''uint''}"
  then show "goType options f c = Inl (Panic (''unknow gotype: '' @ GoType f))"
    by (rule goType_panics)
qed

theorem goType_enumeration_witness:
  "GoType field_note \<in> set spec_GoType_enumeration \<union> {''int'', ''uint''} \<and>
   goType options0 field_note [jen_Id ''T_note''] = Inr ([jen_Id ''T_note''] @ [jen_Int64]) \<and>
   GoType (field_note\<lparr> GoType := ''bool'' \<rparr>) \<notin> set spec_GoType_enumeration \<union> {''int'', ''uint''} \<and>
   goType options0 (field_note\<lparr> GoType := ''bool'' \<rparr>) [jen_Id ''T_note''] =
     Inl (Panic ''unknow gotype: bool'')"
  using goType_enumeration [of field_note options0 "[jen_Id ''T_note'']"]
    goType_enumeration [of "field_note\<lparr> GoType := ''bool'' \<rparr>" options0 "[jen_Id ''T_note'']"]
  by (simp add: goType_def field_note_def spec_GoType_enumeration_def)


section \<open>goFields\<close>

text \<open>
  The statement of a field: its identifier, \<^verbatim>\<open>*\<close> when it is nullable, the tokens
  of its type, then what is left, which starts with a tag or a comment.
\<close>

lemma goFields_body_shape:
  assumes "goFields_body env options f = Inr c"
  shows "\<exists>ty tr. goType options f [] = Inr ty \<and>
           c = jen_Id (TitleCase env (Field_col f)) #
                 (if Nullable f then [jen_Op ''*''] else []) @ ty @ tr \<and>
           (tr = [] \<or> tagOrComment (hd tr)) \<and> \<not> list_ex hasFunc tr"
proof (cases "goType options f []")
  case (Inl p)
  with assms show ?thesis
    by (cases "Nullable f") (simp_all add: goFields_body_def goType_Cons Let_def)
next
  case (Inr ty)
  with assms show ?thesis
    by (cases "Nullable f") (auto simp: goFields_body_def goType_Cons Let_def split: if_splits)
qed

lemma goFields_body_no_func:
  assumes "goFields_body env options f = Inr c"
  shows "\<not> list_ex hasFunc c"
proof -
  from goFields_body_shape [OF assms] obtain ty tr where
    ty: "goType options f [] = Inr ty" and
    c: "c = jen_Id (TitleCase env (Field_col f)) #
              (if Nullable f then [jen_Op ''*''] else []) @ ty @ tr" and
    tr: "\<not> list_ex hasFunc tr"
    by blast
  from goType_tokens(4) [OF ty] tr show ?thesis
    by (auto simp: c list_ex_iff)
qed

lemma fieldTags_simps:
  "fieldTags [] = []"
  "fieldTags (x # ys) = tagItems x @ fieldTags ys"
  "fieldTags (xs @ ys) = fieldTags xs @ fieldTags ys"
  by (simp_all add: fieldTags_def)

lemma goFields_body_gorm:
  assumes "GenGormTag options" and "goFields_body env options f = Inr c"
  shows "map_of (fieldTags c) ''gorm'' =
     Some (''column:'' @ Field_col f @ '';type:'' @ Type f @
           (if Default f \<noteq> '''' then '';default:'' @ Default f else '''') @
           (if \<not> Nullable f then '';not null'' else '''') @
           (if Key f = ''PRI'' then '';primary_key'' else ''''))"
proof (cases "goType options f []")
  case (Inl p)
  with assms show ?thesis
    by (cases "Nullable f") (simp_all add: goFields_body_def goType_Cons Let_def)
next
  case (Inr ty)
  with assms show ?thesis
    by (cases "Nullable f")
      (auto simp: goFields_body_def goType_Cons Let_def fieldTags_simps goType_tokens(3)
         split: if_splits)
qed

text \<open>The loop keeps what it was given and adds the statement of each field, in order.\<close>

lemma goFields_loop_Inr:
  "goFields_loop env options fs cs = Inr r \<Longrightarrow>
     \<exists>cs'. r = cs @ cs' \<and> map Inr cs' = map (goFields_body env options) fs"
proof (induction fs arbitrary: cs)
  case Nil
  then show ?case by simp
next
  case (Cons f fs)
  show ?case
  proof (cases "goFields_body env options f")
    case (Inl p)
    with Cons.prems show ?thesis by simp
  next
    case (Inr b)
    with Cons.prems have "goFields_loop env options fs (cs @ [b]) = Inr r" by simp
    from Cons.IH [OF this] obtain cs' where
      "r = (cs @ [b]) @ cs'" and "map Inr cs' = map (goFields_body env options) fs"
      by blast
    with Inr have "r = cs @ (b # cs') \<and>
        map Inr (b # cs') = map (goFields_body env options) (f # fs)"
      by simp
    then show ?thesis by blast
  qed
qed

lemma goFields_Inr:
  "goFields env options fs = Inr r \<Longrightarrow> map Inr r = map (goFields_body env options) fs"
  using goFields_loop_Inr [of env options fs "[]" r] by (simp add: goFields_def)

lemma goFields_member:
  assumes "goFields env options fs = Inr r" and "c \<in> set r"
  shows "\<exists>f \<in> set fs. goFields_body env options f = Inr c"
proof -
  from assms(2) have "Inr c \<in> set (map Inr r)" by simp
  also have "map Inr r = map (goFields_body env options) fs"
    using assms(1) by (rule goFields_Inr)
  finally show ?thesis by auto
qed

lemma goFields_no_func:
  assumes "goFields env options fs = Inr r"
  shows "\<not> hasFunc (jen_Struct r)"
  using goFields_member [OF assms] goFields_body_no_func
  by (fastforce simp: list_ex_iff)

lemma goFields_heads:
  assumes "goFields env options fs = Inr r"
  shows "map hd r = map (\<lambda>f. jen_Id (TitleCase env (Field_col f))) fs"
proof (rule nth_equalityI)
  have eq: "map Inr r = map (goFields_body env options) fs"
    using assms by (rule goFields_Inr)
  have len: "length r = length fs"
    using arg_cong [OF eq, of length] by simp
  then show "length (map hd r) = length (map (\<lambda>f. jen_Id (TitleCase env (Field_col f))) fs)"
    by simp
  fix i
  assume "i < length (map hd r)"
  then have i: "i < length r" "i < length fs" using len by simp_all
  from eq have "map Inr r ! i = map (goFields_body env options) fs ! i" by simp
  with i have "goFields_body env options (fs ! i) = Inr (r ! i)" by simp
  from goFields_body_shape [OF this]
  have "hd (r ! i) = jen_Id (TitleCase env (Field_col (fs ! i)))" by auto
  with i show "map hd r ! i = map (\<lambda>f. jen_Id (TitleCase env (Field_col f))) fs ! i"
    by simp
qed


text \<open>The model on the two example fields.\<close>

lemma goFields_body_examples:
  "goFields_body env0 options0 field_id = Inr statement_id"
  "goFields_body env0 options0 field_note = Inr statement_note"
  by (simp_all add: goFields_body_def goType_def env0_def options0_def field_id_def
        field_note_def statement_id_def statement_note_def Let_def)

text \<open>
  Claim C1. With \<^verbatim>\<open>GenGormTag\<close> set, the tag of a field has under the key
  \<^verbatim>\<open>gorm\<close> the string \<^verbatim>\<open>column:<field>;type:<raw type>\<close>, then \<^verbatim>\<open>;default:<default>\<close>
  if and only if \<^verbatim>\<open>Default\<close> is not empty, then \<^verbatim>\<open>;not null\<close> if and only if the
  field is not nullable, then \<^verbatim>\<open>;primary_key\<close> if and only if \<^verbatim>\<open>Key\<close> is \<^verbatim>\<open>PRI\<close>. For the
  column \<^verbatim>\<open>id\<close> of type \<^verbatim>\<open>int\<close>, default \<^verbatim>\<open>0\<close>, not nullable, key \<^verbatim>\<open>PRI\<close>, it is
  \<^verbatim>\<open>column:id;type:int;default:0;not null;primary_key\<close>.
\<close>

theorem gorm_tag_order:
  assumes "GenGormTag options" and "goFields_body env options f = Inr c"
  shows "map_of (fieldTags c) ''gorm'' =
           Some (''column:'' @ Field_col f @ '';type:'' @ Type f @
                 (if Default f \<noteq> '''' then '';default:'' @ Default f else '''') @
                 (if \<not> Nullable f then '';not null'' else '''') @
                 (if Key f = ''PRI'' then '';primary_key'' else '''')) \<and>
         (Field_col f = ''id'' \<and> Type f = ''int'' \<and> Default f = ''0'' \<and> \<not> Nullable f \<and>
          Key f = ''PRI'' \<longrightarrow>
          map_of (fieldTags c) ''gorm'' =
            Some ''column:id;type:int;default:0;not null;primary_key'')"
  using goFields_body_gorm [OF assms] by simp

theorem gorm_tag_order_witness:
  "GenGormTag options0 \<and>
   goFields_body env0 options0 field_id = Inr statement_id \<and>
   Field_col field_id = ''id'' \<and> Type field_id = ''int'' \<and> Default field_id = ''0'' \<and>
   \<not> Nullable field_id \<and> Key field_id = ''PRI'' \<and>
   map_of (fieldTags statement_id) ''gorm'' =
     Some ''column:id;type:int;default:0;not null;primary_key''"
proof -
  have g: "GenGormTag options0" by (simp add: options0_def)
  have f: "Field_col field_id = ''id'' \<and> Type field_id = ''int'' \<and> Default field_id = ''0'' \<and>
     \<not> Nullable field_id \<and> Key field_id = ''PRI''"
    by (simp add: field_id_def)
  from gorm_tag_order [OF g goFields_body_examples(1)] f
  have "map_of (fieldTags statement_id) ''gorm'' =
     Some ''column:id;type:int;default:0;not null;primary_key''"
    by blast
  with g f goFields_body_examples(1) show ?thesis by blast
qed

text \<open>The tokens that \<^verbatim>\<open>goType\<close> appends spell the \<^verbatim>\<open>GoType\<close> it was asked for.\<close>

lemma goType_spelling:
  assumes "goType options f [] = Inr ty"
  shows "spelling ty = Some (GoType f)"
  using assms by (auto simp: goType_def split: if_splits)

text \<open>
  Claim C3. The type of the statement of a field is the mapped base type, that is
  the tokens of \<^verbatim>\<open>goType\<close>, which spell the canonical type \<^verbatim>\<open>GoType\<close>; the pointer
  operator \<^verbatim>\<open>*\<close> stands in front of it if the field is nullable, and it is bare if
  the field is not. So the type reads \<^verbatim>\<open>*<GoType>\<close> for a nullable field and
  \<^verbatim>\<open><GoType>\<close> otherwise.
\<close>

theorem nullable_pointer:
  assumes "goFields_body env options f = Inr c"
  shows "\<exists>ty. goType options f [] = Inr ty \<and> spelling ty = Some (GoType f) \<and>
           fieldType c = (if Nullable f then jen_Op ''*'' # ty else ty) \<and>
           spelling (fieldType c) = Some ((if Nullable f then ''*'' else '''') @ GoType f)"
proof -
  from goFields_body_shape [OF assms] obtain ty tr where
    ty: "goType options f [] = Inr ty" and
    c: "c = jen_Id (TitleCase env (Field_col f)) #
              (if Nullable f then [jen_Op ''*''] else []) @ ty @ tr" and
    tr: "tr = [] \<or> tagOrComment (hd tr)"
    by blast
  have "takeWhile (\<lambda>x. \<not> tagOrComment x) tr = []"
    using tr by (cases tr) auto
  moreover have "\<forall>x \<in> set ty. \<not> tagOrComment x"
    using goType_tokens(2) [OF ty] by (simp add: list_all_iff)
  ultimately have ft: "fieldType c = (if Nullable f then jen_Op ''*'' # ty else ty)"
    by (simp add: c fieldType_def)
  have sp: "spelling ty = Some (GoType f)"
    using ty by (rule goType_spelling)
  have "spelling (fieldType c) = Some ((if Nullable f then ''*'' else '''') @ GoType f)"
    by (simp add: ft sp)
  with ty sp ft show ?thesis by blast
qed

theorem nullable_pointer_witness:
  "goFields_body env0 options0 field_note = Inr statement_note \<and>
   Nullable field_note \<and> GoType field_note = ''int64'' \<and>
   goType options0 field_note [] = Inr [jen_Int64] \<and>
   fieldType statement_note = [jen_Op ''*'', jen_Int64] \<and>
   spelling (fieldType statement_note) = Some ''*int64'' \<and>
   goFields_body env0 options0 field_id = Inr statement_id \<and>
   \<not> Nullable field_id \<and> GoType field_id = ''int'' \<and>
   goType options0 field_id [] = Inr [jen_Int] \<and>
   fieldType statement_id = [jen_Int] \<and>
   spelling (fieldType statement_id) = Some ''int''"
  using nullable_pointer [OF goFields_body_examples(2)]
    nullable_pointer [OF goFields_body_examples(1)] goFields_body_examples
  by (simp add: goType_def field_note_def field_id_def)


section \<open>goStruct\<close>

text \<open>
  What a call of \<^verbatim>\<open>goStruct\<close> that returns has done: the fields and the statement
  were rendered without a panic, and the table differs from the one passed in by
  the two assignments.
\<close>

lemma goStruct_Inr:
  assumes "goStruct env options t = Inr t'"
  shows "\<exists>fs s. goFields env options (Fields t) = Inr fs \<and>
           GoString env (goStatement t') = Inr s \<and>
           t' = t\<lparr> GoStruct := s, goStatement := goStatement t' \<rparr> \<and>
           goStatement t' =
             [jen_Comment (TitleCase env (TrimPrefix (Name t) (Prefix t)) @ '' table: '' @ Name t),
              jen_Line] @
             (if Comment t \<noteq> '''' then [jen_Comment (OneLine env (Comment t)), jen_Line] else []) @
             [jen_Type, jen_Id (TitleCase env (TrimPrefix (Name t) (Prefix t))), jen_Struct fs] @
             (if Prefix t \<noteq> ''''
              then [jen_Line, jen_Line,
                    jen_Comment (''TableName set table of '' @ Name t @
                      '', ref document see https://gorm.io/docs/conventions.html''),
                    jen_Line,
                    jen_Func,
                    jen_Params [[jen_Id (TitleCase env (TrimPrefix (Name t) (Prefix t)))]],
                    jen_Id ''TableName'', jen_Return [[jen_String]],
                    jen_Block [[jen_Return [[jen_Lit (Name t)]]]]]
              else [])"
  using assms
  by (cases "Comment t = ''''"; cases "Prefix t = ''''")
     (auto simp: goStruct_def Let_def split: sum.splits)

lemma structFields_simps:
  "structFields [] = []"
  "structFields (x # ys) = structItems x @ structFields ys"
  "structFields (xs @ ys) = structFields xs @ structFields ys"
  by (simp_all add: structFields_def)

text \<open>
  For a table with a prefix, \<^verbatim>\<open>goStruct\<close> appends
  \<^verbatim>\<open>Func().Params(...).Id("TableName").Return(jen.String())\<close> after a line break: the
  statement it hands to \<^verbatim>\<open>GoString\<close> has a line \<^verbatim>\<open>func (...) TableName return string\<close>.
\<close>

lemma funcNameReturn_append:
  "funcNameReturn (xs @ jen_Line # jen_Func # jen_Params ps # jen_Id n # jen_Return rs # ys)"
  by (induction xs) simp_all

lemma goStruct_prefixed_panics:
  assumes rej: "rejectsFuncNameReturn (GoString env)" and pre: "Prefix t \<noteq> ''''"
  shows "\<exists>p. goStruct env options t = Inl p"
proof (cases "goFields env options (Fields t)")
  case (Inl p)
  then show ?thesis by (simp add: goStruct_def Let_def)
next
  case (Inr fs)
  define name where "name = TitleCase env (TrimPrefix (Name t) (Prefix t))"
  define doc where "doc = jen_Comment (name @ '' table: '' @ Name t)"
  define remark where "remark = jen_Comment (''TableName set table of '' @ Name t @
      '', ref document see https://gorm.io/docs/conventions.html'')"
  define front where "front = (if Comment t \<noteq> ''''
      then [doc, jen_Line, jen_Comment (OneLine env (Comment t)), jen_Line]
      else [doc, jen_Line]) @
      [jen_Type, jen_Id name, jen_Struct fs, jen_Line, jen_Line, remark]"
  define c where "c = front @ jen_Line # jen_Func # jen_Params [[jen_Id name]] #
      jen_Id ''TableName'' #
      jen_Return [[jen_String]] # [jen_Block [[jen_Return [[jen_Lit (Name t)]]]]]"
  have "funcNameReturn c"
    unfolding c_def by (rule funcNameReturn_append)
  with rej obtain p where p: "GoString env c = Inl p"
    unfolding rejectsFuncNameReturn_def by blast
  have "goStruct env options t =
      (case GoString env c of
         Inl p \<Rightarrow> Inl p
       | Inr s \<Rightarrow> Inr (t\<lparr> GoStruct := s, goStatement := c \<rparr>))"
    using pre Inr
    by (cases "Comment t = ''''")
       (simp_all add: goStruct_def Let_def c_def front_def remark_def doc_def name_def
          cong: sum.case_cong)
  with p show ?thesis by simp
qed

lemma goStruct_Inr_unprefixed:
  assumes "rejectsFuncNameReturn (GoString env)" and "goStruct env options t = Inr t'"
  shows "Prefix t = ''''"
proof (rule ccontr)
  assume "Prefix t \<noteq> ''''"
  from goStruct_prefixed_panics [OF assms(1) this, of options] assms(2)
  show False by auto
qed

text \<open>What a call that returns has built up to the struct, and the methods in it.\<close>

lemma goStruct_Inr_header:
  assumes "goStruct env options t = Inr t'"
  shows "takeWhile (\<lambda>x. x \<noteq> jen_Type) (goStatement t') =
           jen_Comment (TitleCase env (TrimPrefix (Name t) (Prefix t)) @ '' table: '' @ Name t) #
           jen_Line #
           (if Comment t \<noteq> '''' then [jen_Comment (OneLine env (Comment t)), jen_Line] else []) \<and>
         take 2 (dropWhile (\<lambda>x. x \<noteq> jen_Type) (goStatement t')) =
           [jen_Type, jen_Id (TitleCase env (TrimPrefix (Name t) (Prefix t)))]"
proof -
  from goStruct_Inr [OF assms] obtain fs where
    "goStatement t' =
             [jen_Comment (TitleCase env (TrimPrefix (Name t) (Prefix t)) @ '' table: '' @ Name t),
              jen_Line] @
             (if Comment t \<noteq> '''' then [jen_Comment (OneLine env (Comment t)), jen_Line] else []) @
             [jen_Type, jen_Id (TitleCase env (TrimPrefix (Name t) (Prefix t))), jen_Struct fs] @
             (if Prefix t \<noteq> ''''
              then [jen_Line, jen_Line,
                    jen_Comment (''TableName set table of '' @ Name t @
                      '', ref document see https://gorm.io/docs/conventions.html''),
                    jen_Line,
                    jen_Func,
                    jen_Params [[jen_Id (TitleCase env (TrimPrefix (Name t) (Prefix t)))]],
                    jen_Id ''TableName'', jen_Return [[jen_String]],
                    jen_Block [[jen_Return [[jen_Lit (Name t)]]]]]
              else [])"
    by blast
  then show ?thesis by simp
qed

lemma goStruct_Inr_funcs:
  assumes "goStruct env options t = Inr t'"
  shows "dropWhile (\<lambda>x. \<not> hasFunc x) (goStatement t') =
     (if Prefix t = '''' then []
      else [jen_Func,
            jen_Params [[jen_Id (TitleCase env (TrimPrefix (Name t) (Prefix t)))]],
            jen_Id ''TableName'', jen_Return [[jen_String]],
            jen_Block [[jen_Return [[jen_Lit (Name t)]]]]])"
proof -
  from goStruct_Inr [OF assms] obtain fs where
    fs: "goFields env options (Fields t) = Inr fs" and
    st: "goStatement t' =
             [jen_Comment (TitleCase env (TrimPrefix (Name t) (Prefix t)) @ '' table: '' @ Name t),
              jen_Line] @
             (if Comment t \<noteq> '''' then [jen_Comment (OneLine env (Comment t)), jen_Line] else []) @
             [jen_Type, jen_Id (TitleCase env (TrimPrefix (Name t) (Prefix t))), jen_Struct fs] @
             (if Prefix t \<noteq> ''''
              then [jen_Line, jen_Line,
                    jen_Comment (''TableName set table of '' @ Name t @
                      '', ref document see https://gorm.io/docs/conventions.html''),
                    jen_Line,
                    jen_Func,
                    jen_Params [[jen_Id (TitleCase env (TrimPrefix (Name t) (Prefix t)))]],
                    jen_Id ''TableName'', jen_Return [[jen_String]],
                    jen_Block [[jen_Return [[jen_Lit (Name t)]]]]]
              else [])"
    by blast
  have nf: "\<not> hasFunc (jen_Struct fs)" using fs by (rule goFields_no_func)
  show ?thesis
    unfolding st using nf by (simp del: hasFunc.simps(5))
qed

text \<open>The model on the two example tables.\<close>

lemma env0_simps:
  "TitleCase env0 s = ''T_'' @ s"
  "CamelCase env0 s = ''c_'' @ s"
  "OneLine env0 s = filter (\<lambda>ch. ch \<noteq> CHR 0x0A) s"
  "GoString env0 c =
     (if funcNameReturn c then Inl (Panic ''Error while formatting source'') else Inr ''rendered'')"
  by (simp_all add: env0_def)

lemma env0_rejects: "rejectsFuncNameReturn (GoString env0)"
  by (simp add: rejectsFuncNameReturn_def env0_simps)

lemma table0_simps:
  "Name table0 = ''t_order''" "Prefix table0 = ''t_''" "Comment table0 = ''orders''"
  "Fields table0 = [field_id, field_note]"
  by (simp_all add: table0_def)

lemma table1_simps:
  "Name table1 = ''order''" "Prefix table1 = ''''" "Comment table1 = ''orders''"
  "Fields table1 = [field_id, field_note]"
  by (simp_all add: table1_def)

lemma goFields_examples:
  "goFields env0 options0 [field_id, field_note] = Inr [statement_id, statement_note]"
  by (simp add: goFields_def goFields_body_examples)

lemma goStruct_examples:
  "goStruct env0 options0 table0 = Inl (Panic ''Error while formatting source'')"
  "goStruct env0 options0 table1 =
     Inr (table1\<lparr> GoStruct := ''rendered'', goStatement := statement1 \<rparr>)"
  by (simp_all add: goStruct_def goFields_examples Let_def TrimPrefix_def env0_simps
        table0_simps table1_simps statement1_def)

text \<open>
  Claim C4. The claim is that the output has the method \<^verbatim>\<open>TableName\<close>, returning the
  literal \<^verbatim>\<open>table.Name\<close>, if and only if \<^verbatim>\<open>table.Prefix\<close> is not empty. The code does not
  get there: with a renderer that rejects a line \<^verbatim>\<open>func (...) Name return ...\<close>, as
  \<^verbatim>\<open>go/format\<close> does, \<^verbatim>\<open>goStruct\<close> panics for every table with a non-empty prefix, and
  the statement of a call that returns, which is a call for a table without prefix,
  has the keyword \<^verbatim>\<open>func\<close> nowhere. No accessor is ever emitted.
\<close>

theorem goStruct_no_accessor:
  assumes "rejectsFuncNameReturn (GoString env)"
  shows "(Prefix t \<noteq> '''' \<longrightarrow> (\<exists>p. goStruct env options t = Inl p)) \<and>
         (\<forall>t'. goStruct env options t = Inr t' \<longrightarrow>
            Prefix t = '''' \<and> \<not> list_ex hasFunc (goStatement t'))"
proof (intro conjI allI impI)
  assume "Prefix t \<noteq> ''''"
  with assms show "\<exists>p. goStruct env options t = Inl p"
    by (rule goStruct_prefixed_panics)
next
  fix t'
  assume r: "goStruct env options t = Inr t'"
  with assms show p: "Prefix t = ''''" by (rule goStruct_Inr_unprefixed)
  from goStruct_Inr_funcs [OF r] p
  have "dropWhile (\<lambda>x. \<not> hasFunc x) (goStatement t') = []" by simp
  then show "\<not> list_ex hasFunc (goStatement t')"
    by (simp add: dropWhile_eq_Nil_conv list_ex_iff)
qed

theorem goStruct_no_accessor_witness:
  "rejectsFuncNameReturn (GoString env0) \<and>
   Prefix table0 \<noteq> '''' \<and>
   goStruct env0 options0 table0 = Inl (Panic ''Error while formatting source'') \<and>
   goStruct env0 options0 table1 =
     Inr (table1\<lparr> GoStruct := ''rendered'', goStatement := statement1 \<rparr>) \<and>
   Prefix table1 = '''' \<and>
   \<not> list_ex hasFunc statement1"
proof -
  have p0: "Prefix table0 \<noteq> ''''" by (simp add: table0_simps)
  from goStruct_no_accessor [OF env0_rejects, of table1 options0] goStruct_examples(2)
  have "Prefix table1 = '''' \<and>
        \<not> list_ex hasFunc (goStatement (table1\<lparr> GoStruct := ''rendered'', goStatement := statement1 \<rparr>))"
    by blast
  then have "Prefix table1 = '''' \<and> \<not> list_ex hasFunc statement1" by simp
  with env0_rejects p0 goStruct_examples show ?thesis by blast
qed

text \<open>
  Claim C7. The claim is that the struct of every table is named \<^verbatim>\<open>TitleCase\<close> of
  the table name with the prefix stripped, under the comment
  \<^verbatim>\<open><StructName> table: <table.Name>\<close> and, if and only if \<^verbatim>\<open>table.Comment\<close> is not empty,
  the table comment in one line. The code does this for the tables without prefix
  only: with a renderer as in claim C4, \<^verbatim>\<open>goStruct\<close> panics for every table from
  whose name the prefix would be stripped, and a call that returns was made for a
  table whose prefix is empty, so that its struct is named \<^verbatim>\<open>TitleCase\<close> of the
  whole table name, under the two comments of the claim.
\<close>

theorem goStruct_never_strips:
  assumes "rejectsFuncNameReturn (GoString env)"
  shows "(TrimPrefix (Name t) (Prefix t) \<noteq> Name t \<longrightarrow> (\<exists>p. goStruct env options t = Inl p)) \<and>
         (\<forall>t'. goStruct env options t = Inr t' \<longrightarrow>
            Prefix t = '''' \<and>
            takeWhile (\<lambda>x. x \<noteq> jen_Type) (goStatement t') =
              jen_Comment (TitleCase env (Name t) @ '' table: '' @ Name t) #
              jen_Line #
              (if Comment t \<noteq> ''''
               then [jen_Comment (OneLine env (Comment t)), jen_Line] else []) \<and>
            take 2 (dropWhile (\<lambda>x. x \<noteq> jen_Type) (goStatement t')) =
              [jen_Type, jen_Id (TitleCase env (Name t))])"
proof (intro conjI allI impI)
  assume "TrimPrefix (Name t) (Prefix t) \<noteq> Name t"
  then have "Prefix t \<noteq> ''''" by (auto simp: TrimPrefix_def)
  with assms show "\<exists>p. goStruct env options t = Inl p"
    by (rule goStruct_prefixed_panics)
next
  fix t'
  assume r: "goStruct env options t = Inr t'"
  with assms show p: "Prefix t = ''''" by (rule goStruct_Inr_unprefixed)
  then have n: "TrimPrefix (Name t) (Prefix t) = Name t" by (simp add: TrimPrefix_def)
  from goStruct_Inr_header [OF r] n
  show "takeWhile (\<lambda>x. x \<noteq> jen_Type) (goStatement t') =
          jen_Comment (TitleCase env (Name t) @ '' table: '' @ Name t) #
          jen_Line #
          (if Comment t \<noteq> ''''
           then [jen_Comment (OneLine env (Comment t)), jen_Line] else [])"
    and "take 2 (dropWhile (\<lambda>x. x \<noteq> jen_Type) (goStatement t')) =
          [jen_Type, jen_Id (TitleCase env (Name t))]"
    by simp_all
qed

theorem goStruct_never_strips_witness:
  "rejectsFuncNameReturn (GoString env0) \<and>
   TrimPrefix (Name table0) (Prefix table0) \<noteq> Name table0 \<and>
   goStruct env0 options0 table0 = Inl (Panic ''Error while formatting source'') \<and>
   goStruct env0 options0 table1 =
     Inr (table1\<lparr> GoStruct := ''rendered'', goStatement := statement1 \<rparr>) \<and>
   Prefix table1 = '''' \<and>
   takeWhile (\<lambda>x. x \<noteq> jen_Type) statement1 =
     [jen_Comment ''T_order table: order'', jen_Line, jen_Comment ''orders'', jen_Line] \<and>
   take 2 (dropWhile (\<lambda>x. x \<noteq> jen_Type) statement1) = [jen_Type, jen_Id ''T_order'']"
proof -
  have s: "TrimPrefix (Name table0) (Prefix table0) \<noteq> Name table0"
    by (simp add: table0_simps TrimPrefix_def)
  from goStruct_never_strips [OF env0_rejects, of table1 options0] goStruct_examples(2)
  have "Prefix table1 = '''' \<and>
        takeWhile (\<lambda>x. x \<noteq> jen_Type)
          (goStatement (table1\<lparr> GoStruct := ''rendered'', goStatement := statement1 \<rparr>)) =
          jen_Comment (TitleCase env0 (Name table1) @ '' table: '' @ Name table1) #
          jen_Line #
          (if Comment table1 \<noteq> ''''
           then [jen_Comment (OneLine env0 (Comment table1)), jen_Line] else []) \<and>
        take 2 (dropWhile (\<lambda>x. x \<noteq> jen_Type)
          (goStatement (table1\<lparr> GoStruct := ''rendered'', goStatement := statement1 \<rparr>))) =
          [jen_Type, jen_Id (TitleCase env0 (Name table1))]"
    by blast
  then have "Prefix table1 = '''' \<and>
     takeWhile (\<lambda>x. x \<noteq> jen_Type) statement1 =
       [jen_Comment ''T_order table: order'', jen_Line, jen_Comment ''orders'', jen_Line] \<and>
     take 2 (dropWhile (\<lambda>x. x \<noteq> jen_Type) statement1) = [jen_Type, jen_Id ''T_order'']"
    by (simp add: table1_simps env0_simps)
  with env0_rejects s goStruct_examples show ?thesis by blast
qed

text \<open>
  Claim C8. The struct of the statement has exactly one field statement for each
  entry of \<^verbatim>\<open>table.Fields\<close>, in the order of \<^verbatim>\<open>table.Fields\<close>: the field statements are
  the statements of the entries, one by one, and their identifiers are the
  \<^verbatim>\<open>TitleCase\<close> column names in column order.
\<close>

theorem goStruct_fields_in_order:
  assumes "goStruct env options t = Inr t'"
  shows "map Inr (structFields (goStatement t')) = map (goFields_body env options) (Fields t) \<and>
         length (structFields (goStatement t')) = length (Fields t) \<and>
         map hd (structFields (goStatement t')) =
           map (\<lambda>f. jen_Id (TitleCase env (Field_col f))) (Fields t)"
proof -
  from goStruct_Inr [OF assms] obtain fs where
    fs: "goFields env options (Fields t) = Inr fs" and
    st: "goStatement t' =
             [jen_Comment (TitleCase env (TrimPrefix (Name t) (Prefix t)) @ '' table: '' @ Name t),
              jen_Line] @
             (if Comment t \<noteq> '''' then [jen_Comment (OneLine env (Comment t)), jen_Line] else []) @
             [jen_Type, jen_Id (TitleCase env (TrimPrefix (Name t) (Prefix t))), jen_Struct fs] @
             (if Prefix t \<noteq> ''''
              then [jen_Line, jen_Line,
                    jen_Comment (''TableName set table of '' @ Name t @
                      '', ref document see https://gorm.io/docs/conventions.html''),
                    jen_Line,
                    jen_Func,
                    jen_Params [[jen_Id (TitleCase env (TrimPrefix (Name t) (Prefix t)))]],
                    jen_Id ''TableName'', jen_Return [[jen_String]],
                    jen_Block [[jen_Return [[jen_Lit (Name t)]]]]]
              else [])"
    by blast
  have sf: "structFields (goStatement t') = fs"
    unfolding st by (simp add: structFields_simps)
  have len: "length fs = length (Fields t)"
    using arg_cong [OF goFields_Inr [OF fs], of length] by simp
  from goFields_Inr [OF fs] len goFields_heads [OF fs] show ?thesis
    by (simp only: sf simp_thms)
qed

theorem goStruct_fields_in_order_witness:
  "goStruct env0 options0 table1 =
     Inr (table1\<lparr> GoStruct := ''rendered'', goStatement := statement1 \<rparr>) \<and>
   Fields table1 = [field_id, field_note] \<and>
   structFields statement1 = [statement_id, statement_note] \<and>
   length (structFields statement1) = length (Fields table1) \<and>
   map hd (structFields statement1) = [jen_Id ''T_id'', jen_Id ''T_note'']"
  using goStruct_fields_in_order [OF goStruct_examples(2)] goStruct_examples(2)
  by (simp add: table1_simps env0_simps structFields_simps statement1_def statement_id_def
        statement_note_def)

text \<open>
  Claim C9. A call of \<^verbatim>\<open>goStruct\<close> that returns has written \<^verbatim>\<open>GoStruct\<close> and
  \<^verbatim>\<open>goStatement\<close> only: \<^verbatim>\<open>Name\<close>, \<^verbatim>\<open>Prefix\<close>, \<^verbatim>\<open>Comment\<close> and \<^verbatim>\<open>Fields\<close>, with every
  field in it, are those of the table passed in, and \<^verbatim>\<open>GoStruct\<close> is the rendering
  of \<^verbatim>\<open>goStatement\<close>. (A call that panics does so before the two assignments.)
\<close>

theorem goStruct_frame:
  assumes "goStruct env options t = Inr t'"
  shows "Name t' = Name t \<and> Prefix t' = Prefix t \<and> Comment t' = Comment t \<and>
         Fields t' = Fields t \<and>
         t' = t\<lparr> GoStruct := GoStruct t', goStatement := goStatement t' \<rparr> \<and>
         GoString env (goStatement t') = Inr (GoStruct t')"
proof -
  from goStruct_Inr [OF assms] obtain s where
    s: "GoString env (goStatement t') = Inr s" and
    t': "t' = t\<lparr> GoStruct := s, goStatement := goStatement t' \<rparr>"
    by blast
  from t' have g: "GoStruct t' = s"
    by (metis Table.select_convs(5) Table.surjective Table.update_convs(5) Table.update_convs(6))
  from t' have "Name t' = Name t" "Prefix t' = Prefix t" "Comment t' = Comment t"
    "Fields t' = Fields t"
    by (metis Table.select_convs Table.surjective Table.update_convs)+
  with s t' g show ?thesis by simp
qed

theorem goStruct_frame_witness:
  "goStruct env0 options0 table1 =
     Inr (table1\<lparr> GoStruct := ''rendered'', goStatement := statement1 \<rparr>) \<and>
   Name (table1\<lparr> GoStruct := ''rendered'', goStatement := statement1 \<rparr>) = ''order'' \<and>
   Name table1 = ''order'' \<and>
   Fields (table1\<lparr> GoStruct := ''rendered'', goStatement := statement1 \<rparr>) =
     [field_id, field_note] \<and>
   Fields table1 = [field_id, field_note] \<and>
   GoString env0 statement1 = Inr ''rendered''"
  using goStruct_frame [OF goStruct_examples(2)] goStruct_examples(2)
  by (simp add: table1_simps env0_simps statement1_def)

end
